theory Spec2Isabelle
  imports Complex_Main "HOL-Library.Log_Nat"
begin

section \<open>The number type of the source\<close>

text \<open>
  Every quantity of \<^verbatim>\<open>app/lib/settings.server.ts\<close> has the TypeScript type
  \<^verbatim>\<open>number\<close>: an IEEE 754 binary64 value. A value is a NaN, an infinity or a finite
  real; the result of an arithmetic operation on finite operands is the exact result
  rounded to the nearest representable value, ties to the value with an even significand.
  The two zeros are one value \<open>Fin 0\<close>: the comparisons and the arithmetic of the module
  cannot tell them apart, since its one division is guarded by \<^verbatim>\<open>salesVelocity > 0\<close>.
  \<open>Fin\<close> takes any real, so a statement about every \<open>Fin x\<close> holds in particular for
  every binary64 value \<open>x\<close>.
\<close>

datatype number = NaN | NegInf | Fin real | PosInf

text \<open>Rounding a non-negative real to an integer, ties to even.\<close>

definition rne :: "real \<Rightarrow> int" where
  "rne t = (let f = \<lfloor>t\<rfloor> in
     if t - of_int f < 1 / 2 then f
     else if 1 / 2 < t - of_int f then f + 1
     else if even f then f else f + 1)"

text \<open>
  Magnitudes are measured in units of \<open>2 ^ -1074\<close>, the smallest positive binary64 value.
  A magnitude \<open>t\<close> (in these units) whose integer part has \<open>k\<close> bits keeps its leading 53
  bits: the representable values around it are the multiples of \<open>2 ^ (k - 53)\<close>, and of
  \<open>1\<close> in the subnormal range \<open>k \<le> 53\<close>.
\<close>

definition spacing :: "real \<Rightarrow> nat" where
  "spacing t = nat (bitlen \<lfloor>t\<rfloor> - 53)"

definition round_scaled :: "real \<Rightarrow> int" where
  "round_scaled t = rne (t / 2 ^ spacing t) * 2 ^ spacing t"

text \<open>
  Round to nearest, ties to even; a result of magnitude \<open>2 ^ 1024\<close> (that is
  \<open>2 ^ 2098\<close> units) or more overflows to the infinity of its sign.
\<close>

definition to_double :: "real \<Rightarrow> number" where
  "to_double x = (let n = round_scaled (\<bar>x\<bar> * 2 ^ 1074) in
     if 2 ^ 2098 \<le> n then (if 0 < x then PosInf else NegInf)
     else Fin (sgn x * of_int n / 2 ^ 1074))"

subsection \<open>Comparisons\<close>

text \<open>\<^verbatim>\<open>a < b\<close>: false as soon as an operand is NaN.\<close>

fun js_lt :: "number \<Rightarrow> number \<Rightarrow> bool" where
  "js_lt NaN b = False"
| "js_lt a NaN = False"
| "js_lt a NegInf = False"
| "js_lt NegInf b = True"
| "js_lt PosInf b = False"
| "js_lt (Fin x) PosInf = True"
| "js_lt (Fin x) (Fin y) = (x < y)"

text \<open>\<^verbatim>\<open>a > b\<close> and \<^verbatim>\<open>a <= b\<close>.\<close>

definition js_gt :: "number \<Rightarrow> number \<Rightarrow> bool" where
  "js_gt a b = js_lt b a"

definition js_le :: "number \<Rightarrow> number \<Rightarrow> bool" where
  "js_le a b = (a \<noteq> NaN \<and> b \<noteq> NaN \<and> \<not> js_lt b a)"

subsection \<open>Arithmetic\<close>

text \<open>\<^verbatim>\<open>a * b\<close>: zero times an infinity is NaN.\<close>

fun js_mul :: "number \<Rightarrow> number \<Rightarrow> number" where
  "js_mul NaN b = NaN"
| "js_mul a NaN = NaN"
| "js_mul (Fin x) (Fin y) = to_double (x * y)"
| "js_mul (Fin x) PosInf = (if x = 0 then NaN else if 0 < x then PosInf else NegInf)"
| "js_mul (Fin x) NegInf = (if x = 0 then NaN else if 0 < x then NegInf else PosInf)"
| "js_mul PosInf (Fin y) = (if y = 0 then NaN else if 0 < y then PosInf else NegInf)"
| "js_mul NegInf (Fin y) = (if y = 0 then NaN else if 0 < y then NegInf else PosInf)"
| "js_mul PosInf PosInf = PosInf"
| "js_mul PosInf NegInf = NegInf"
| "js_mul NegInf PosInf = NegInf"
| "js_mul NegInf NegInf = PosInf"

text \<open>\<^verbatim>\<open>a + b\<close>: the sum of the two infinities is NaN.\<close>

fun js_add :: "number \<Rightarrow> number \<Rightarrow> number" where
  "js_add NaN b = NaN"
| "js_add a NaN = NaN"
| "js_add (Fin x) (Fin y) = to_double (x + y)"
| "js_add PosInf NegInf = NaN"
| "js_add NegInf PosInf = NaN"
| "js_add PosInf b = PosInf"
| "js_add NegInf b = NegInf"
| "js_add (Fin x) b = b"

text \<open>\<^verbatim>\<open>a - b\<close>: the difference of equal infinities is NaN.\<close>

fun js_sub :: "number \<Rightarrow> number \<Rightarrow> number" where
  "js_sub NaN b = NaN"
| "js_sub a NaN = NaN"
| "js_sub (Fin x) (Fin y) = to_double (x - y)"
| "js_sub PosInf PosInf = NaN"
| "js_sub NegInf NegInf = NaN"
| "js_sub PosInf b = PosInf"
| "js_sub NegInf b = NegInf"
| "js_sub (Fin x) PosInf = NegInf"
| "js_sub (Fin x) NegInf = PosInf"

text \<open>
  \<^verbatim>\<open>a / b\<close>. A zero divisor is read as \<open>+0\<close>; \<open>getStockStatus\<close> divides only by a
  velocity that passed \<^verbatim>\<open>salesVelocity > 0\<close>.
\<close>

fun js_div :: "number \<Rightarrow> number \<Rightarrow> number" where
  "js_div NaN b = NaN"
| "js_div a NaN = NaN"
| "js_div (Fin x) (Fin y) =
     (if y = 0 then (if x = 0 then NaN else if 0 < x then PosInf else NegInf)
      else to_double (x / y))"
| "js_div (Fin x) b = Fin 0"
| "js_div PosInf (Fin y) = (if 0 \<le> y then PosInf else NegInf)"
| "js_div NegInf (Fin y) = (if 0 \<le> y then NegInf else PosInf)"
| "js_div a b = NaN"

text \<open>\<^verbatim>\<open>Math.ceil\<close>: the ceiling of a binary64 value is a binary64 value.\<close>

fun Math_ceil :: "number \<Rightarrow> number" where
  "Math_ceil (Fin x) = Fin (of_int \<lceil>x\<rceil>)"
| "Math_ceil a = a"

text \<open>\<^verbatim>\<open>Math.max\<close> of two arguments: NaN as soon as an argument is NaN.\<close>

definition Math_max :: "number \<Rightarrow> number \<Rightarrow> number" where
  "Math_max a b = (if a = NaN \<or> b = NaN then NaN else if js_lt a b then b else a)"

section \<open>The settings and the two calculators\<close>

text \<open>\<^verbatim>\<open>interface AppSettingsType\<close>.\<close>

record AppSettingsType =
  stockCoverageDays :: number
  lowStockThreshold :: number
  mediumStockThreshold :: number
  reorderPoint :: number
  emailNotifications :: bool

text \<open>The three string literals that \<^verbatim>\<open>getStockStatus\<close> returns.\<close>

datatype stock_status = low | medium | good

definition getStockStatus ::
  "number \<Rightarrow> number \<Rightarrow> 'a AppSettingsType_scheme \<Rightarrow> stock_status" where
  "getStockStatus currentStock salesVelocity settings =
     (let daysOfStock =
        (if js_gt salesVelocity (Fin 0) then js_div currentStock salesVelocity else PosInf)
      in if js_lt daysOfStock (lowStockThreshold settings) then low
         else if js_lt daysOfStock (mediumStockThreshold settings) then medium
         else good)"

definition calculateSuggestedQuantity ::
  "number \<Rightarrow> number \<Rightarrow> 'a AppSettingsType_scheme \<Rightarrow> number" where
  "calculateSuggestedQuantity currentStock salesVelocity settings =
     (if js_le salesVelocity (Fin 0) then Fin 0
      else
        let targetStock = Math_ceil (js_mul salesVelocity (stockCoverageDays settings));
            suggestedQuantity = Math_max (Fin 0) (js_sub targetStock currentStock)
        in Math_ceil (js_mul suggestedQuantity (js_add (Fin 1) (reorderPoint settings))))"

section \<open>The operations as the specification words them\<close>

text \<open>
  The constraints that the specification's data model puts on a settings record:
  coverage between 1 and 365 days, thresholds positive and ordered, buffer fraction
  between 0 and 1.
\<close>

definition valid_settings :: "'a AppSettingsType_scheme \<Rightarrow> bool" where
  "valid_settings settings \<longleftrightarrow>
     js_le (Fin 1) (stockCoverageDays settings) \<and>
     js_le (stockCoverageDays settings) (Fin 365) \<and>
     js_lt (Fin 0) (lowStockThreshold settings) \<and>
     js_lt (lowStockThreshold settings) (mediumStockThreshold settings) \<and>
     js_le (Fin 0) (reorderPoint settings) \<and>
     js_le (reorderPoint settings) (Fin 1)"

text \<open>A real that rounding leaves as it is: the value of a finite binary64 number.\<close>

definition representable :: "real \<Rightarrow> bool" where
  "representable x \<longleftrightarrow> to_double x = Fin x"

text \<open>
  "daysOfStock = currentStock / salesVelocity when salesVelocity > 0, +infinity
  otherwise", for a finite stock and a finite velocity: the quotient of the two reals.
\<close>

definition spec_daysOfStock :: "real \<Rightarrow> real \<Rightarrow> number" where
  "spec_daysOfStock currentStock salesVelocity =
     (if 0 < salesVelocity then Fin (currentStock / salesVelocity) else PosInf)"

text \<open>The same with the quotient rounded to the nearest binary64 value.\<close>

definition binary64_daysOfStock :: "real \<Rightarrow> real \<Rightarrow> number" where
  "binary64_daysOfStock currentStock salesVelocity =
     (if 0 < salesVelocity then to_double (currentStock / salesVelocity) else PosInf)"

section \<open>The settings table and \<open>getAppSettings\<close>\<close>

text \<open>
  A row of the Prisma model \<^verbatim>\<open>AppSettings\<close>: the settings fields, the primary key
  \<open>id\<close>, the unique \<open>shop\<close> and the two timestamps. The table is the list of its rows.
\<close>

record AppSettings = AppSettingsType +
  id :: string
  shop :: string
  createdAt :: nat
  updatedAt :: nat

datatype db_error = UniqueConstraintFailed

text \<open>\<^verbatim>\<open>db.appSettings.findUnique({ where: { shop } })\<close>: the row of the shop, or null.\<close>

definition findUnique :: "AppSettings list \<Rightarrow> string \<Rightarrow> AppSettings option" where
  "findUnique table sh = find (\<lambda>row. shop row = sh) table"

text \<open>
  \<^verbatim>\<open>db.appSettings.create({ data })\<close>: the table generates the key (\<^verbatim>\<open>cuid()\<close>) and the
  timestamps (\<^verbatim>\<open>now()\<close>), here the arguments \<open>new_id\<close> and \<open>now\<close>; it refuses a second
  row with the same \<open>shop\<close> or the same \<open>id\<close>.
\<close>

definition create ::
  "AppSettings list \<Rightarrow> string \<Rightarrow> nat \<Rightarrow> string \<Rightarrow> AppSettingsType
     \<Rightarrow> db_error + AppSettings \<times> AppSettings list" where
  "create table new_id now sh data =
     (if \<exists>row \<in> set table. shop row = sh \<or> id row = new_id then Inl UniqueConstraintFailed
      else
        let row = \<lparr>stockCoverageDays = stockCoverageDays data,
                     lowStockThreshold = lowStockThreshold data,
                     mediumStockThreshold = mediumStockThreshold data,
                     reorderPoint = reorderPoint data,
                     emailNotifications = emailNotifications data,
                     id = new_id, shop = sh, createdAt = now, updatedAt = now\<rparr>
        in Inr (row, table @ [row]))"

text \<open>
  \<^verbatim>\<open>getAppSettings(shop)\<close>: look the row up and create it when the lookup returned null.
  The table is threaded through both calls, so no other writer comes between them. The
  literals \<^verbatim>\<open>30\<close>, \<^verbatim>\<open>7\<close> and \<^verbatim>\<open>14\<close> are binary64 values; the literal \<^verbatim>\<open>0.1\<close> denotes the
  binary64 value nearest to one tenth.
\<close>

definition getAppSettings ::
  "string \<Rightarrow> string \<Rightarrow> nat \<Rightarrow> AppSettings list
     \<Rightarrow> db_error + AppSettings \<times> AppSettings list" where
  "getAppSettings sh new_id now table =
     (case findUnique table sh of
        None \<Rightarrow>
          create table new_id now sh
            \<lparr>stockCoverageDays = Fin 30,
             lowStockThreshold = Fin 7,
             mediumStockThreshold = Fin 14,
             reorderPoint = to_double (1 / 10),
             emailNotifications = True\<rparr>
      | Some settings \<Rightarrow> Inr (settings, table))"

section \<open>Rounding to binary64\<close>

subsection \<open>Ties to even on the integers\<close>

lemma rne_lower: "\<lfloor>t\<rfloor> \<le> rne t"
  by (simp add: rne_def Let_def)

lemma rne_of_int [simp]: "rne (of_int n) = n"
  by (simp add: rne_def)

lemma rne_zero [simp]: "rne 0 = 0"
  using rne_of_int [of 0] by simp

lemma rne_mono: "s \<le> t \<Longrightarrow> rne s \<le> rne t"
proof (cases "\<lfloor>s\<rfloor> = \<lfloor>t\<rfloor>")
  case True
  assume "s \<le> t"
  with True show ?thesis
    by (auto simp: rne_def Let_def)
next
  case False
  assume "s \<le> t"
  then have "\<lfloor>s\<rfloor> \<le> \<lfloor>t\<rfloor>" by (rule floor_mono)
  with False have "\<lfloor>s\<rfloor> + 1 \<le> \<lfloor>t\<rfloor>" by simp
  moreover have "rne s \<le> \<lfloor>s\<rfloor> + 1"
    by (simp add: rne_def Let_def)
  moreover have "\<lfloor>t\<rfloor> \<le> rne t" by (rule rne_lower)
  ultimately show ?thesis by linarith
qed

lemma rne_ge_int: "of_int n \<le> t \<Longrightarrow> n \<le> rne t"
  using rne_mono [of "of_int n" t] by simp

lemma rne_le_int: "t \<le> of_int n \<Longrightarrow> rne t \<le> n"
  using rne_mono [of t "of_int n"] by simp

subsection \<open>The spacing of the representable values\<close>

lemma spacing_le_iff: "spacing t \<le> q \<longleftrightarrow> t < 2 ^ (q + 53)"
proof -
  have "spacing t \<le> q \<longleftrightarrow> bitlen \<lfloor>t\<rfloor> \<le> int q + 53"
    by (auto simp: spacing_def)
  also have "\<dots> \<longleftrightarrow> \<lfloor>t\<rfloor> < 2 ^ (q + 53)"
    by (simp add: bitlen_le_iff_power nat_add_distrib)
  also have "\<dots> \<longleftrightarrow> t < 2 ^ (q + 53)"
    by (simp add: floor_less_iff)
  finally show ?thesis .
qed

lemma spacing_ge_iff: "0 < q \<Longrightarrow> q \<le> spacing t \<longleftrightarrow> 2 ^ (q + 52) \<le> t"
proof -
  assume q: "0 < q"
  have "q \<le> spacing t \<longleftrightarrow> int q + 53 \<le> bitlen \<lfloor>t\<rfloor>"
    using q by (auto simp: spacing_def)
  also have "\<dots> \<longleftrightarrow> 2 ^ (q + 52) \<le> \<lfloor>t\<rfloor>"
    by (simp add: bitlen_ge_iff_power nat_add_distrib add.commute)
  also have "\<dots> \<longleftrightarrow> 2 ^ (q + 52) \<le> t"
    by (simp add: le_floor_iff)
  finally show ?thesis .
qed

lemma spacing_mono: "s \<le> t \<Longrightarrow> spacing s \<le> spacing t"
proof -
  assume "s \<le> t"
  moreover have "t < 2 ^ (spacing t + 53)"
    using spacing_le_iff [of t "spacing t"] by simp
  ultimately have "s < 2 ^ (spacing t + 53)" by simp
  then show ?thesis by (simp add: spacing_le_iff)
qed

lemma spacing_eqI:
  assumes "q = 0 \<or> 2 ^ (q + 52) \<le> t" and "t < 2 ^ (q + 53)"
  shows "spacing t = q"
proof (rule antisym)
  show "spacing t \<le> q" using assms(2) by (simp add: spacing_le_iff)
  show "q \<le> spacing t"
  proof (cases "q = 0")
    case False
    with assms(1) show ?thesis by (simp add: spacing_ge_iff)
  qed simp
qed

subsection \<open>Rounding is total, monotone and computable binade by binade\<close>

lemma round_scaled_nonneg: "0 \<le> t \<Longrightarrow> 0 \<le> round_scaled t"
proof -
  assume "0 \<le> t"
  then have "of_int 0 \<le> t / 2 ^ spacing t" by simp
  then have "0 \<le> rne (t / 2 ^ spacing t)" by (rule rne_ge_int)
  then show ?thesis by (simp add: round_scaled_def)
qed

lemma round_scaled_zero [simp]: "round_scaled 0 = 0"
  by (simp add: round_scaled_def)

lemma round_scaled_upper: "round_scaled t \<le> 2 ^ (spacing t + 53)"
proof -
  have "t < 2 ^ (spacing t + 53)"
    using spacing_le_iff [of t "spacing t"] by simp
  then have "t / 2 ^ spacing t \<le> of_int (2 ^ 53)"
    by (simp add: power_add field_simps)
  then have "rne (t / 2 ^ spacing t) \<le> 2 ^ 53" by (rule rne_le_int)
  then have "rne (t / 2 ^ spacing t) * 2 ^ spacing t \<le> 2 ^ 53 * 2 ^ spacing t"
    by (rule mult_right_mono) simp
  then show ?thesis by (simp add: round_scaled_def power_add mult.commute)
qed

lemma round_scaled_lower:
  assumes "0 < spacing t"
  shows "2 ^ (spacing t + 52) \<le> round_scaled t"
proof -
  have "2 ^ (spacing t + 52) \<le> t"
    using spacing_ge_iff [OF assms, of t] by simp
  then have "of_int (2 ^ 52) \<le> t / 2 ^ spacing t"
    by (simp add: power_add field_simps)
  then have "2 ^ 52 \<le> rne (t / 2 ^ spacing t)" by (rule rne_ge_int)
  then have "2 ^ 52 * 2 ^ spacing t \<le> rne (t / 2 ^ spacing t) * 2 ^ spacing t"
    by (rule mult_right_mono) simp
  then show ?thesis by (simp add: round_scaled_def power_add mult.commute)
qed

lemma round_scaled_mono:
  assumes "s \<le> t"
  shows "round_scaled s \<le> round_scaled t"
proof (cases "spacing s = spacing t")
  case True
  from assms have "s / 2 ^ spacing t \<le> t / 2 ^ spacing t"
    by (simp add: divide_right_mono)
  then have "rne (s / 2 ^ spacing t) \<le> rne (t / 2 ^ spacing t)" by (rule rne_mono)
  then have "rne (s / 2 ^ spacing t) * 2 ^ spacing t \<le> rne (t / 2 ^ spacing t) * 2 ^ spacing t"
    by (rule mult_right_mono) simp
  with True show ?thesis by (simp add: round_scaled_def)
next
  case False
  with spacing_mono [OF assms] have lt: "spacing s < spacing t" by simp
  then have "spacing s + 53 \<le> spacing t + 52" by simp
  then have "(2::int) ^ (spacing s + 53) \<le> 2 ^ (spacing t + 52)"
    by (rule power_increasing) simp
  moreover have "round_scaled s \<le> 2 ^ (spacing s + 53)" by (rule round_scaled_upper)
  moreover have "2 ^ (spacing t + 52) \<le> round_scaled t"
    using lt by (intro round_scaled_lower) simp
  ultimately show ?thesis by linarith
qed

lemma round_scaled_at:
  assumes "q = 0 \<or> 2 ^ (q + 52) \<le> t" and "t < 2 ^ (q + 53)"
  shows "round_scaled t = rne (t / 2 ^ q) * 2 ^ q"
  using spacing_eqI [OF assms] by (simp add: round_scaled_def)

lemma to_double_nonneg:
  "0 \<le> x \<Longrightarrow> to_double x =
     (if 2 ^ 2098 \<le> round_scaled (x * 2 ^ 1074) then PosInf
      else Fin (of_int (round_scaled (x * 2 ^ 1074)) / 2 ^ 1074))"
  by (cases "x = 0") (simp_all add: to_double_def Let_def)

lemma to_double_nonpos:
  "x \<le> 0 \<Longrightarrow> to_double x =
     (if 2 ^ 2098 \<le> round_scaled (- x * 2 ^ 1074) then NegInf
      else Fin (- of_int (round_scaled (- x * 2 ^ 1074)) / 2 ^ 1074))"
  by (cases "x = 0") (simp_all add: to_double_def Let_def)

lemma to_double_zero [simp]: "to_double 0 = Fin 0"
  by (simp add: to_double_def)

lemma to_double_not_NaN [simp]: "to_double x \<noteq> NaN"
  by (simp add: to_double_def Let_def)

lemma to_double_mono:
  assumes "x \<le> y"
  shows "js_le (to_double x) (to_double y)"
proof -
  consider "0 \<le> x" | "y \<le> 0" | "x < 0" "0 < y" by linarith
  then show ?thesis
  proof cases
    case 1
    with assms have y: "0 \<le> y" by simp
    from assms have "x * 2 ^ 1074 \<le> y * 2 ^ 1074" by simp
    then have "round_scaled (x * 2 ^ 1074) \<le> round_scaled (y * 2 ^ 1074)"
      by (rule round_scaled_mono)
    then show ?thesis
      by (simp add: to_double_nonneg [OF 1] to_double_nonneg [OF y] js_le_def
          divide_right_mono)
  next
    case 2
    with assms have x: "x \<le> 0" by simp
    from assms have "- y * 2 ^ 1074 \<le> - x * 2 ^ 1074" by simp
    then have "round_scaled (- y * 2 ^ 1074) \<le> round_scaled (- x * 2 ^ 1074)"
      by (rule round_scaled_mono)
    then show ?thesis
      by (simp add: to_double_nonpos [OF 2] to_double_nonpos [OF x] js_le_def
          divide_right_mono)
  next
    case 3
    then have x: "x \<le> 0" and y: "0 \<le> y" by simp_all
    have "0 \<le> round_scaled (- x * 2 ^ 1074)" "0 \<le> round_scaled (y * 2 ^ 1074)"
      using x y by (simp_all add: round_scaled_nonneg)
    then have "- real_of_int (round_scaled (- x * 2 ^ 1074)) / 2 ^ 1074
        \<le> real_of_int (round_scaled (y * 2 ^ 1074)) / 2 ^ 1074"
      by (simp add: divide_right_mono)
    then show ?thesis
      by (simp add: to_double_nonpos [OF x] to_double_nonneg [OF y] js_le_def)
  qed
qed

lemma to_double_at:
  assumes "q \<le> 2044"
    and "q = 0 \<or> 2 ^ (q + 52) \<le> \<bar>x\<bar> * 2 ^ 1074"
    and "\<bar>x\<bar> * 2 ^ 1074 < 2 ^ (q + 53)"
  shows "to_double x = Fin (sgn x * of_int (rne (\<bar>x\<bar> * 2 ^ 1074 / 2 ^ q) * 2 ^ q) / 2 ^ 1074)"
proof -
  have "round_scaled (\<bar>x\<bar> * 2 ^ 1074) \<le> 2 ^ (spacing (\<bar>x\<bar> * 2 ^ 1074) + 53)"
    by (rule round_scaled_upper)
  also have "spacing (\<bar>x\<bar> * 2 ^ 1074) = q"
    using assms(2,3) by (rule spacing_eqI)
  also have "(2::int) ^ (q + 53) \<le> 2 ^ 2097"
    using assms(1) by (intro power_increasing) simp_all
  finally have "round_scaled (\<bar>x\<bar> * 2 ^ 1074) < 2 ^ 2098" by simp
  then show ?thesis
    using round_scaled_at [OF assms(2,3)] by (simp add: to_double_def Let_def)
qed

subsection \<open>The integers below \<open>2 ^ 53\<close> are representable\<close>



section \<open>Order and monotonicity of the operations\<close>

lemma js_le_Fin [simp]: "js_le (Fin x) (Fin y) \<longleftrightarrow> x \<le> y"
  by (auto simp: js_le_def)

lemma js_le_trans: "js_le a b \<Longrightarrow> js_le b c \<Longrightarrow> js_le a c"
  by (cases a; cases b; cases c) (simp_all add: js_le_def)

lemma js_le_PosInf [simp]: "js_le a PosInf \<longleftrightarrow> a \<noteq> NaN"
  by (cases a) (simp_all add: js_le_def)

lemma js_le_NegInf [simp]: "js_le NegInf a \<longleftrightarrow> a \<noteq> NaN"
  by (cases a) (simp_all add: js_le_def)

lemma js_lt_imp_le: "js_lt a b \<Longrightarrow> js_le a b"
  by (cases a; cases b) (simp_all add: js_le_def)

lemma js_lt_le_trans: "js_lt a b \<Longrightarrow> js_le b c \<Longrightarrow> js_lt a c"
  by (cases a; cases b; cases c) (simp_all add: js_le_def)

lemma Math_ceil_not_NaN [simp]: "Math_ceil a = NaN \<longleftrightarrow> a = NaN"
  by (cases a) simp_all

lemma Math_ceil_mono: "js_le a b \<Longrightarrow> js_le (Math_ceil a) (Math_ceil b)"
  by (cases a; cases b) (simp_all add: js_le_def not_less ceiling_mono)

lemma Math_max_not_NaN [simp]: "Math_max a b = NaN \<longleftrightarrow> a = NaN \<or> b = NaN"
  by (auto simp: Math_max_def)

lemma Math_max_Fin [simp]: "Math_max (Fin x) (Fin y) = Fin (max x y)"
  by (simp add: Math_max_def max_def)

lemma Math_max_mono:
  "js_le a b \<Longrightarrow> c \<noteq> NaN \<Longrightarrow> js_le (Math_max c a) (Math_max c b)"
  by (cases a; cases b; cases c) (auto simp: Math_max_def js_le_def)

lemma Math_max_ge_left: "a \<noteq> NaN \<Longrightarrow> b \<noteq> NaN \<Longrightarrow> js_le a (Math_max a b)"
  by (cases a; cases b) (auto simp: Math_max_def js_le_def)

lemma Math_max_zero_nonpos: "js_le a (Fin 0) \<Longrightarrow> Math_max (Fin 0) a = Fin 0"
  by (cases a) (auto simp: Math_max_def js_le_def)

lemma js_sub_Fin_not_NaN [simp]: "js_sub a (Fin x) = NaN \<longleftrightarrow> a = NaN"
  by (cases a) simp_all

lemma js_sub_mono_left: "js_le a b \<Longrightarrow> js_le (js_sub a (Fin x)) (js_sub b (Fin x))"
  by (cases a; cases b) (simp_all add: to_double_mono, simp_all add: js_le_def)

lemma js_sub_anti_right:
  "x \<le> y \<Longrightarrow> a \<noteq> NaN \<Longrightarrow> js_le (js_sub a (Fin y)) (js_sub a (Fin x))"
  by (cases a) (simp_all add: to_double_mono)

lemma js_mul_Fin_not_NaN: "z \<noteq> 0 \<Longrightarrow> js_mul a (Fin z) = NaN \<longleftrightarrow> a = NaN"
  by (cases a) simp_all

lemma js_mul_mono_left:
  "js_le a b \<Longrightarrow> 0 < z \<Longrightarrow> js_le (js_mul a (Fin z)) (js_mul b (Fin z))"
  by (cases a; cases b) (simp_all add: to_double_mono, simp_all add: js_le_def)

lemma js_mul_mono_pos:
  assumes "js_lt (Fin 0) a" and "js_le a b" and "js_le (Fin 1) d"
  shows "js_le (js_mul a d) (js_mul b d)"
proof (cases d)
  case (Fin z)
  with assms(3) have "0 < z" by simp
  with assms(2) show ?thesis unfolding Fin by (rule js_mul_mono_left)
next
  case PosInf
  with assms(1,2) show ?thesis
    by (cases a; cases b) (auto simp: js_le_def)
qed (use assms(3) in \<open>simp_all add: js_le_def\<close>)

lemma to_double_one [simp]: "to_double 1 = Fin 1"
  using to_double_at [of 1022 1] by (simp add: rne_def)

lemma to_double_two [simp]: "to_double 2 = Fin 2"
  using to_double_at [of 1023 2] by (simp add: rne_def)

lemma buffer_factor:
  assumes "js_le (Fin 0) r" and "js_le r (Fin 1)"
  obtains b where "js_add (Fin 1) r = Fin b" and "1 \<le> b" and "b \<le> 2"
proof -
  from assms obtain \<rho> where r: "r = Fin \<rho>" and \<rho>: "0 \<le> \<rho>" "\<rho> \<le> 1"
    by (cases r) (simp_all add: js_le_def)
  from \<rho> have "js_le (Fin 1) (to_double (1 + \<rho>))" "js_le (to_double (1 + \<rho>)) (Fin 2)"
    using to_double_mono [of 1 "1 + \<rho>"] to_double_mono [of "1 + \<rho>" 2] by simp_all
  then obtain b where "to_double (1 + \<rho>) = Fin b" "1 \<le> b" "b \<le> 2"
    by (cases "to_double (1 + \<rho>)") (simp_all add: js_le_def)
  with r that show ?thesis by simp
qed

section \<open>Values used in the examples\<close>

text \<open>
  Each value is rounded in its own binade: \<open>to_double_at\<close> is given the spacing of the
  binade, and the two bounds and the tie-breaking are arithmetic on numerals.
\<close>

lemma to_double_6: "to_double 6 = Fin 6"
  using to_double_at [of 1024 6] by (simp add: rne_def)

lemma to_double_7: "to_double 7 = Fin 7"
  using to_double_at [of 1024 7] by (simp add: rne_def)

lemma to_double_13: "to_double 13 = Fin 13"
  using to_double_at [of 1025 13] by (simp add: rne_def)

lemma to_double_14: "to_double 14 = Fin 14"
  using to_double_at [of 1025 14] by (simp add: rne_def)

lemma to_double_tenth: "to_double (1 / 10) = Fin (3602879701896397 / 36028797018963968)"
  using to_double_at [of 1018 "1 / 10"] by (simp add: rne_def)

lemma to_double_60: "to_double 60 = Fin 60"
  using to_double_at [of 1027 60] by (simp add: rne_def)

lemma to_double_50: "to_double 50 = Fin 50"
  using to_double_at [of 1027 50] by (simp add: rne_def)

lemma one_plus_tenth:
  "to_double (39631676720860365 / 36028797018963968)
     = Fin (2476979795053773 / 2251799813685248)"
  using to_double_at [of 1022 "39631676720860365 / 36028797018963968"]
  by (simp add: rne_def)

lemma fifty_times_buffer:
  "to_double (61924494876344325 / 1125899906842624)
     = Fin (7740561859543041 / 140737488355328)"
  using to_double_at [of 1027 "61924494876344325 / 1125899906842624"]
  by (simp add: rne_def)








text \<open>The binary64 value of \<^verbatim>\<open>5 / 7\<close>, and five divided by it.\<close>

lemma five_sevenths_representable:
  "to_double (6433713753386423 / 9007199254740992) = Fin (6433713753386423 / 9007199254740992)"
  using to_double_at [of 1021 "6433713753386423 / 9007199254740992"] by (simp add: rne_def)

lemma five_by_five_sevenths:
  "to_double (45035996273704960 / 6433713753386423) = Fin 7"
  using to_double_at [of 1024 "45035996273704960 / 6433713753386423"] by (simp add: rne_def)

section \<open>The stock status\<close>

lemma js_lt_not_NaN: "js_lt a b \<Longrightarrow> a \<noteq> NaN \<and> b \<noteq> NaN"
  by (cases a; cases b) simp_all

lemma js_lt_PosInf_left [simp]: "\<not> js_lt PosInf b"
  by (cases b) simp_all

lemma getStockStatus_binary64_days:
  "getStockStatus (Fin c) (Fin v) s =
    (if js_lt (binary64_daysOfStock c v) (lowStockThreshold s) then low
     else if js_lt (binary64_daysOfStock c v) (mediumStockThreshold s) then medium else good)"
  by (auto simp: getStockStatus_def binary64_daysOfStock_def js_gt_def Let_def)

lemma binary64_daysOfStock_not_NaN [simp]: "binary64_daysOfStock c v \<noteq> NaN"
  by (simp add: binary64_daysOfStock_def)

lemma binary64_days_exact:
  "representable (c / v) \<or> v \<le> 0 \<Longrightarrow> binary64_daysOfStock c v = spec_daysOfStock c v"
  by (auto simp: binary64_daysOfStock_def spec_daysOfStock_def representable_def)

lemma binary64_days_below:
  assumes "representable l" and "js_lt (binary64_daysOfStock c v) (Fin l)"
  shows "js_lt (spec_daysOfStock c v) (Fin l)"
proof (cases "0 < v")
  case True
  show ?thesis
  proof (rule ccontr)
    assume "\<not> js_lt (spec_daysOfStock c v) (Fin l)"
    with True have "l \<le> c / v" by (simp add: spec_daysOfStock_def)
    then have "js_le (to_double l) (to_double (c / v))" by (rule to_double_mono)
    with assms(1) True have "js_le (Fin l) (binary64_daysOfStock c v)"
      by (simp add: representable_def binary64_daysOfStock_def)
    with assms(2) show False by (simp add: js_le_def)
  qed
next
  case False
  with assms(2) show ?thesis by (simp add: binary64_daysOfStock_def)
qed

lemma binary64_days_at_least:
  assumes "representable m" and "js_le (Fin m) (spec_daysOfStock c v)"
  shows "js_le (Fin m) (binary64_daysOfStock c v)"
proof (cases "0 < v")
  case True
  with assms(2) have "m \<le> c / v" by (simp add: spec_daysOfStock_def)
  then have "js_le (to_double m) (to_double (c / v))" by (rule to_double_mono)
  with assms(1) True show ?thesis
    by (simp add: representable_def binary64_daysOfStock_def)
next
  case False
  then show ?thesis by (simp add: binary64_daysOfStock_def)
qed

text \<open>
  C2: for a finite stock \<open>\<ge> 0\<close>, a finite velocity \<open>\<ge> 0\<close> and thresholds with
  \<open>0 < lowStockThreshold < mediumStockThreshold\<close>, \<open>getStockStatus\<close> returns \<open>low\<close> iff
  the days of stock are below \<open>lowStockThreshold\<close>, \<open>medium\<close> iff they are at least
  \<open>lowStockThreshold\<close> and below \<open>mediumStockThreshold\<close>, and \<open>good\<close> otherwise, that is
  iff they are at least \<open>mediumStockThreshold\<close>, where the days of stock are the quotient
  \<open>currentStock / salesVelocity\<close> rounded to the nearest binary64 value when the velocity
  is positive and \<open>+\<infinity>\<close> when it is zero. When the quotient is representable they are the
  exact quotient. In every case, with a representable threshold, \<open>low\<close> is returned only
  when the exact quotient is below \<open>lowStockThreshold\<close>, and \<open>good\<close> is returned whenever
  the exact quotient is at least \<open>mediumStockThreshold\<close>. With thresholds 7 and 14 and
  velocity 1, the stocks 6, 7, 13 and 14 give \<open>low\<close>, \<open>medium\<close>, \<open>medium\<close> and \<open>good\<close>.
\<close>

theorem getStockStatus_thresholds:
  assumes "0 \<le> currentStock" and "0 \<le> salesVelocity"
    and "js_lt (Fin 0) (lowStockThreshold settings)"
    and "js_lt (lowStockThreshold settings) (mediumStockThreshold settings)"
  shows
    "(getStockStatus (Fin currentStock) (Fin salesVelocity) settings = low \<longleftrightarrow>
        js_lt (binary64_daysOfStock currentStock salesVelocity) (lowStockThreshold settings)) \<and>
     (getStockStatus (Fin currentStock) (Fin salesVelocity) settings = medium \<longleftrightarrow>
        js_le (lowStockThreshold settings) (binary64_daysOfStock currentStock salesVelocity) \<and>
        js_lt (binary64_daysOfStock currentStock salesVelocity) (mediumStockThreshold settings)) \<and>
     (getStockStatus (Fin currentStock) (Fin salesVelocity) settings = good \<longleftrightarrow>
        js_le (mediumStockThreshold settings) (binary64_daysOfStock currentStock salesVelocity)) \<and>
     (representable (currentStock / salesVelocity) \<or> salesVelocity = 0 \<longrightarrow>
        binary64_daysOfStock currentStock salesVelocity =
          spec_daysOfStock currentStock salesVelocity) \<and>
     (lowStockThreshold settings = Fin l \<and> representable l \<and>
      getStockStatus (Fin currentStock) (Fin salesVelocity) settings = low \<longrightarrow>
        js_lt (spec_daysOfStock currentStock salesVelocity) (lowStockThreshold settings)) \<and>
     (mediumStockThreshold settings = Fin m \<and> representable m \<and>
      js_le (mediumStockThreshold settings) (spec_daysOfStock currentStock salesVelocity) \<longrightarrow>
        getStockStatus (Fin currentStock) (Fin salesVelocity) settings = good) \<and>
     getStockStatus (Fin 6) (Fin 1)
       (settings\<lparr>lowStockThreshold := Fin 7, mediumStockThreshold := Fin 14\<rparr>) = low \<and>
     getStockStatus (Fin 7) (Fin 1)
       (settings\<lparr>lowStockThreshold := Fin 7, mediumStockThreshold := Fin 14\<rparr>) = medium \<and>
     getStockStatus (Fin 13) (Fin 1)
       (settings\<lparr>lowStockThreshold := Fin 7, mediumStockThreshold := Fin 14\<rparr>) = medium \<and>
     getStockStatus (Fin 14) (Fin 1)
       (settings\<lparr>lowStockThreshold := Fin 7, mediumStockThreshold := Fin 14\<rparr>) = good"
proof -
  let ?d = "binary64_daysOfStock currentStock salesVelocity"
  let ?L = "lowStockThreshold settings" and ?M = "mediumStockThreshold settings"
  let ?status = "getStockStatus (Fin currentStock) (Fin salesVelocity) settings"
  have L: "?L \<noteq> NaN" and M: "?M \<noteq> NaN"
    using assms(4) js_lt_not_NaN by blast+
  have le_L: "js_le ?L ?d \<longleftrightarrow> \<not> js_lt ?d ?L"
    using L by (simp add: js_le_def)
  have le_M: "js_le ?M ?d \<longleftrightarrow> \<not> js_lt ?d ?M"
    using M by (simp add: js_le_def)
  have below: "js_lt ?d ?M" if "js_lt ?d ?L"
    using that assms(4) js_lt_imp_le js_lt_le_trans by blast
  have rounded:
    "(?status = low \<longleftrightarrow> js_lt ?d ?L) \<and>
     (?status = medium \<longleftrightarrow> js_le ?L ?d \<and> js_lt ?d ?M) \<and>
     (?status = good \<longleftrightarrow> js_le ?M ?d)"
    using below by (auto simp: getStockStatus_binary64_days le_L le_M)
  have exact: "?d = spec_daysOfStock currentStock salesVelocity"
    if "representable (currentStock / salesVelocity) \<or> salesVelocity = 0"
    using that by (intro binary64_days_exact) auto
  have low_sound: "js_lt (spec_daysOfStock currentStock salesVelocity) ?L"
    if "?L = Fin l" "representable l" "?status = low"
    using that rounded binary64_days_below [of l currentStock salesVelocity] by simp
  have good_complete: "?status = good"
    if "?M = Fin m" "representable m"
      "js_le ?M (spec_daysOfStock currentStock salesVelocity)"
    using that rounded binary64_days_at_least [of m currentStock salesVelocity] by simp
  have examples:
    "getStockStatus (Fin 6) (Fin 1)
       (settings\<lparr>lowStockThreshold := Fin 7, mediumStockThreshold := Fin 14\<rparr>) = low"
    "getStockStatus (Fin 7) (Fin 1)
       (settings\<lparr>lowStockThreshold := Fin 7, mediumStockThreshold := Fin 14\<rparr>) = medium"
    "getStockStatus (Fin 13) (Fin 1)
       (settings\<lparr>lowStockThreshold := Fin 7, mediumStockThreshold := Fin 14\<rparr>) = medium"
    "getStockStatus (Fin 14) (Fin 1)
       (settings\<lparr>lowStockThreshold := Fin 7, mediumStockThreshold := Fin 14\<rparr>) = good"
    by (simp_all add: getStockStatus_def js_gt_def to_double_6 to_double_7 to_double_13
        to_double_14)
  from rounded exact low_sound good_complete examples show ?thesis by blast
qed

theorem getStockStatus_thresholds_witness:
  "(0::real) \<le> 5 \<and> (0::real) \<le> 6433713753386423 / 9007199254740992 \<and>
   js_lt (Fin 0) (Fin 7) \<and> js_lt (Fin 7) (Fin 14) \<and>
   binary64_daysOfStock 5 (6433713753386423 / 9007199254740992) = Fin 7 \<and>
   getStockStatus (Fin 5) (Fin (6433713753386423 / 9007199254740992))
     \<lparr>stockCoverageDays = Fin 30, lowStockThreshold = Fin 7, mediumStockThreshold = Fin 14,
      reorderPoint = to_double (1 / 10), emailNotifications = True\<rparr> = medium \<and>
   (0::real) \<le> 6 \<and> (0::real) \<le> 1 \<and> representable (6 / 1) \<and> representable 7 \<and>
   js_lt (spec_daysOfStock 6 1) (Fin 7) \<and>
   getStockStatus (Fin 6) (Fin 1)
     \<lparr>stockCoverageDays = Fin 30, lowStockThreshold = Fin 7, mediumStockThreshold = Fin 14,
      reorderPoint = to_double (1 / 10), emailNotifications = True\<rparr> = low \<and>
   (0::real) \<le> 30 \<and> (0::real) \<le> 2 \<and> representable 14 \<and>
   js_le (Fin 14) (spec_daysOfStock 30 2) \<and>
   getStockStatus (Fin 30) (Fin 2)
     \<lparr>stockCoverageDays = Fin 30, lowStockThreshold = Fin 7, mediumStockThreshold = Fin 14,
      reorderPoint = to_double (1 / 10), emailNotifications = True\<rparr> = good"
  using
    getStockStatus_thresholds [of 5 "6433713753386423 / 9007199254740992"
      "\<lparr>stockCoverageDays = Fin 30, lowStockThreshold = Fin 7, mediumStockThreshold = Fin 14,
      reorderPoint = to_double (1 / 10), emailNotifications = True\<rparr>" 7 14]
    getStockStatus_thresholds [of 6 1
      "\<lparr>stockCoverageDays = Fin 30, lowStockThreshold = Fin 7, mediumStockThreshold = Fin 14,
      reorderPoint = to_double (1 / 10), emailNotifications = True\<rparr>" 7 14]
    getStockStatus_thresholds [of 30 2
      "\<lparr>stockCoverageDays = Fin 30, lowStockThreshold = Fin 7, mediumStockThreshold = Fin 14,
      reorderPoint = to_double (1 / 10), emailNotifications = True\<rparr>" 7 14]
  by (simp add: representable_def spec_daysOfStock_def binary64_daysOfStock_def
      five_by_five_sevenths to_double_6 to_double_7 to_double_14)

text \<open>
  With the exact quotient in place of the rounded one the equivalences of C2 fail: at stock
  5 and velocity \<open>6433713753386423 / 2 ^ 53\<close>, the binary64 value of \<^verbatim>\<open>5 / 7\<close>, the exact
  quotient is below 7, the division of the number type returns 7, and the status is
  \<open>medium\<close>, not \<open>low\<close>.
\<close>

theorem getStockStatus_exact_quotient_counterexample:
  "(0::real) \<le> 5 \<and> (0::real) \<le> 6433713753386423 / 9007199254740992 \<and>
   representable (6433713753386423 / 9007199254740992) \<and>
   js_lt (Fin 0) (Fin 7) \<and> js_lt (Fin 7) (Fin 14) \<and>
   js_lt (spec_daysOfStock 5 (6433713753386423 / 9007199254740992)) (Fin 7) \<and>
   getStockStatus (Fin 5) (Fin (6433713753386423 / 9007199254740992))
     \<lparr>stockCoverageDays = Fin 30, lowStockThreshold = Fin 7, mediumStockThreshold = Fin 14,
      reorderPoint = to_double (1 / 10), emailNotifications = True\<rparr> = medium"
  by (simp add: representable_def five_sevenths_representable spec_daysOfStock_def
      getStockStatus_def js_gt_def five_by_five_sevenths)

text \<open>
  C4: at \<open>salesVelocity = 0\<close> neither function has an error to signal:
  \<open>calculateSuggestedQuantity\<close> returns \<open>0\<close> and \<open>getStockStatus\<close> returns \<open>good\<close>, for
  every stock and every settings record. No division is performed: the days of stock are
  taken to be infinite, and infinity is below no threshold.
\<close>

theorem zero_velocity_no_error:
  "calculateSuggestedQuantity currentStock (Fin 0) settings = Fin 0 \<and>
   getStockStatus currentStock (Fin 0) settings = good"
  by (simp add: calculateSuggestedQuantity_def getStockStatus_def js_gt_def)

text \<open>
  C9: with inverted thresholds (\<open>mediumStockThreshold \<le> lowStockThreshold\<close>)
  \<open>getStockStatus\<close> never returns \<open>medium\<close>: it returns \<open>low\<close> when the days of stock are
  below \<open>lowStockThreshold\<close> and \<open>good\<close> otherwise, for every stock and every velocity.
\<close>

theorem inverted_thresholds_never_medium:
  assumes "js_le (mediumStockThreshold settings) (lowStockThreshold settings)"
  shows "getStockStatus currentStock salesVelocity settings \<noteq> medium \<and>
    getStockStatus currentStock salesVelocity settings =
      (if js_lt (if js_gt salesVelocity (Fin 0) then js_div currentStock salesVelocity else PosInf)
            (lowStockThreshold settings)
       then low else good)"
  using assms js_lt_le_trans [of _ "mediumStockThreshold settings" "lowStockThreshold settings"]
  by (auto simp: getStockStatus_def Let_def)

theorem inverted_thresholds_never_medium_witness:
  "js_le (Fin 7) (Fin 14) \<and>
   getStockStatus (Fin 10) (Fin 1)
     \<lparr>stockCoverageDays = Fin 30, lowStockThreshold = Fin 14, mediumStockThreshold = Fin 7,
      reorderPoint = Fin 0, emailNotifications = True\<rparr> \<noteq> medium"
  using inverted_thresholds_never_medium [of
      "\<lparr>stockCoverageDays = Fin 30, lowStockThreshold = Fin 14, mediumStockThreshold = Fin 7,
        reorderPoint = Fin 0, emailNotifications = True\<rparr>" "Fin 10" "Fin 1"]
  by simp

section \<open>The suggested quantity\<close>




text \<open>
  C3: \<open>calculateSuggestedQuantity\<close> at stock 10, velocity 2, 30 days of coverage and the
  buffer \<^verbatim>\<open>0.1\<close>, the reorder example of the specification. The target stock is 60 and
  the raw suggestion 50, as there. The buffer factor \<^verbatim>\<open>1 + 0.1\<close> is the binary64 value
  \<open>2476979795053773 / 2 ^ 51\<close>, just above \<open>11 / 10\<close>; fifty times it rounds to
  \<open>7740561859543041 / 2 ^ 47\<close>, just above 55, and the ceiling of that is 56, where the
  example and the settings page ("0.1 = 10% buffer") have 55.
\<close>

theorem reorder_example_returns_56:
  "js_mul (Fin 2) (Fin 30) = Fin 60 \<and>
   js_sub (Fin 60) (Fin 10) = Fin 50 \<and>
   js_add (Fin 1) (to_double (1 / 10)) = Fin (2476979795053773 / 2251799813685248) \<and>
   js_mul (Fin 50) (Fin (2476979795053773 / 2251799813685248))
     = Fin (7740561859543041 / 140737488355328) \<and>
   calculateSuggestedQuantity (Fin 10) (Fin 2)
     \<lparr>stockCoverageDays = Fin 30, lowStockThreshold = Fin 7, mediumStockThreshold = Fin 14,
      reorderPoint = to_double (1 / 10), emailNotifications = True\<rparr> = Fin 56"
  by (simp add: calculateSuggestedQuantity_def Math_max_def to_double_tenth to_double_60
      to_double_50 one_plus_tenth fifty_times_buffer)

lemma coverage_finite:
  assumes "js_le (Fin 1) d" and "js_le d (Fin 365)"
  obtains z where "d = Fin z" and "1 \<le> z" and "z \<le> 365"
  using assms by (cases d) (simp_all add: js_le_def)

lemma velocity_cases:
  assumes "js_le (Fin 0) v"
  obtains "v = Fin 0" | "js_lt (Fin 0) v"
proof -
  from assms have "v = Fin 0 \<or> js_lt (Fin 0) v"
    by (cases v) (auto simp: js_le_def)
  with that show ?thesis by blast
qed

text \<open>
  C5: for a fixed velocity \<open>\<ge> 0\<close> and fixed valid settings the suggested quantity does
  not increase when the stock increases: for finite stocks
  \<open>0 \<le> currentStock1 \<le> currentStock2\<close> the quantity at \<open>currentStock2\<close> is at most the
  quantity at \<open>currentStock1\<close>.
\<close>

theorem suggested_quantity_antitone_in_stock:
  assumes "valid_settings settings" and "js_le (Fin 0) salesVelocity"
    and "0 \<le> currentStock1" and "currentStock1 \<le> currentStock2"
  shows "js_le (calculateSuggestedQuantity (Fin currentStock2) salesVelocity settings)
               (calculateSuggestedQuantity (Fin currentStock1) salesVelocity settings)"
proof (cases "js_le salesVelocity (Fin 0)")
  case True
  then show ?thesis by (simp add: calculateSuggestedQuantity_def)
next
  case False
  from assms(1) obtain z where days: "stockCoverageDays settings = Fin z" and z: "1 \<le> z"
    by (auto simp: valid_settings_def elim: coverage_finite)
  from assms(1) obtain b where buffer: "js_add (Fin 1) (reorderPoint settings) = Fin b"
    and b: "1 \<le> b"
    by (auto simp: valid_settings_def elim: buffer_factor)
  let ?target = "Math_ceil (js_mul salesVelocity (stockCoverageDays settings))"
  from assms(2) z have "?target \<noteq> NaN"
    by (simp add: days js_mul_Fin_not_NaN js_le_def)
  with assms(4)
  have "js_le (js_sub ?target (Fin currentStock2)) (js_sub ?target (Fin currentStock1))"
    by (rule js_sub_anti_right)
  then have "js_le (Math_max (Fin 0) (js_sub ?target (Fin currentStock2)))
                   (Math_max (Fin 0) (js_sub ?target (Fin currentStock1)))"
    by (rule Math_max_mono) simp
  then have "js_le (js_mul (Math_max (Fin 0) (js_sub ?target (Fin currentStock2))) (Fin b))
                   (js_mul (Math_max (Fin 0) (js_sub ?target (Fin currentStock1))) (Fin b))"
    by (rule js_mul_mono_left) (use b in simp)
  then have "js_le
      (Math_ceil (js_mul (Math_max (Fin 0) (js_sub ?target (Fin currentStock2))) (Fin b)))
      (Math_ceil (js_mul (Math_max (Fin 0) (js_sub ?target (Fin currentStock1))) (Fin b)))"
    by (rule Math_ceil_mono)
  with False show ?thesis
    by (simp add: calculateSuggestedQuantity_def Let_def buffer)
qed

theorem suggested_quantity_antitone_in_stock_witness:
  "valid_settings
     \<lparr>stockCoverageDays = Fin 30, lowStockThreshold = Fin 7, mediumStockThreshold = Fin 14,
      reorderPoint = to_double (1 / 10), emailNotifications = True\<rparr> \<and>
   js_le (Fin 0) (Fin 2) \<and> (0::real) \<le> 10 \<and> (10::real) \<le> 20 \<and>
   js_le
     (calculateSuggestedQuantity (Fin 20) (Fin 2)
        \<lparr>stockCoverageDays = Fin 30, lowStockThreshold = Fin 7, mediumStockThreshold = Fin 14,
      reorderPoint = to_double (1 / 10), emailNotifications = True\<rparr>)
     (calculateSuggestedQuantity (Fin 10) (Fin 2)
        \<lparr>stockCoverageDays = Fin 30, lowStockThreshold = Fin 7, mediumStockThreshold = Fin 14,
      reorderPoint = to_double (1 / 10), emailNotifications = True\<rparr>)"
  using suggested_quantity_antitone_in_stock [of
      "\<lparr>stockCoverageDays = Fin 30, lowStockThreshold = Fin 7, mediumStockThreshold = Fin 14,
      reorderPoint = to_double (1 / 10), emailNotifications = True\<rparr>" "Fin 2" 10 20]
  by (simp add: valid_settings_def to_double_tenth)

text \<open>
  C6: for a fixed finite stock \<open>\<ge> 0\<close> and fixed settings with
  \<open>stockCoverageDays \<ge> 1\<close> and \<open>reorderPoint\<close> between 0 and 1 the suggested quantity does
  not decrease when the velocity increases: for velocities
  \<open>0 \<le> salesVelocity1 \<le> salesVelocity2\<close> the quantity at \<open>salesVelocity1\<close> is at most the
  quantity at \<open>salesVelocity2\<close>, also from velocity 0 to a positive velocity.
\<close>

theorem suggested_quantity_monotone_in_velocity:
  assumes "0 \<le> currentStock"
    and "js_le (Fin 1) (stockCoverageDays settings)"
    and "js_le (Fin 0) (reorderPoint settings)" and "js_le (reorderPoint settings) (Fin 1)"
    and "js_le (Fin 0) salesVelocity1" and "js_le salesVelocity1 salesVelocity2"
  shows "js_le (calculateSuggestedQuantity (Fin currentStock) salesVelocity1 settings)
               (calculateSuggestedQuantity (Fin currentStock) salesVelocity2 settings)"
proof -
  from assms(3,4) obtain b where buffer: "js_add (Fin 1) (reorderPoint settings) = Fin b"
    and b: "1 \<le> b"
    by (rule buffer_factor)
  let ?days = "stockCoverageDays settings"
  let ?raw = "\<lambda>v. Math_max (Fin 0) (js_sub (Math_ceil (js_mul v ?days)) (Fin currentStock))"
  let ?final = "\<lambda>v. Math_ceil (js_mul (?raw v) (Fin b))"
  have calc: "calculateSuggestedQuantity (Fin currentStock) v settings = ?final v"
    if "\<not> js_le v (Fin 0)" for v
    using that by (simp add: calculateSuggestedQuantity_def Let_def buffer)
  have target_ok: "js_mul v ?days \<noteq> NaN" if "js_lt (Fin 0) v" for v
    using that assms(2) by (cases v; cases ?days) (auto simp: js_le_def)
  have final_nonneg: "js_le (Fin 0) (?final v)" if "js_lt (Fin 0) v" for v
  proof -
    from target_ok [OF that] have "js_le (Fin 0) (?raw v)"
      by (intro Math_max_ge_left) simp_all
    then have "js_le (js_mul (Fin 0) (Fin b)) (js_mul (?raw v) (Fin b))"
      by (rule js_mul_mono_left) (use b in simp)
    then have "js_le (Math_ceil (js_mul (Fin 0) (Fin b))) (?final v)"
      by (rule Math_ceil_mono)
    then show ?thesis by simp
  qed
  from assms(5,6) have v2: "js_le (Fin 0) salesVelocity2" by (rule js_le_trans)
  from assms(5) show ?thesis
  proof (cases rule: velocity_cases)
    case 1
    from v2 show ?thesis
    proof (cases rule: velocity_cases)
      case 1
      with \<open>salesVelocity1 = Fin 0\<close> show ?thesis
        by (simp add: calculateSuggestedQuantity_def)
    next
      case 2
      then have "\<not> js_le salesVelocity2 (Fin 0)" by (simp add: js_le_def)
      with final_nonneg [OF 2] \<open>salesVelocity1 = Fin 0\<close> show ?thesis
        by (simp add: calc) (simp add: calculateSuggestedQuantity_def)
    qed
  next
    case 2
    from 2 assms(6) have pos2: "js_lt (Fin 0) salesVelocity2" by (rule js_lt_le_trans)
    from 2 pos2 have not_le: "\<not> js_le salesVelocity1 (Fin 0)" "\<not> js_le salesVelocity2 (Fin 0)"
      by (simp_all add: js_le_def)
    from 2 assms(6,2) have "js_le (js_mul salesVelocity1 ?days) (js_mul salesVelocity2 ?days)"
      by (rule js_mul_mono_pos)
    then have "js_le (Math_ceil (js_mul salesVelocity1 ?days))
                     (Math_ceil (js_mul salesVelocity2 ?days))"
      by (rule Math_ceil_mono)
    then have "js_le (js_sub (Math_ceil (js_mul salesVelocity1 ?days)) (Fin currentStock))
                     (js_sub (Math_ceil (js_mul salesVelocity2 ?days)) (Fin currentStock))"
      by (rule js_sub_mono_left)
    then have "js_le (?raw salesVelocity1) (?raw salesVelocity2)"
      by (rule Math_max_mono) simp
    then have "js_le (js_mul (?raw salesVelocity1) (Fin b)) (js_mul (?raw salesVelocity2) (Fin b))"
      by (rule js_mul_mono_left) (use b in simp)
    then have "js_le (?final salesVelocity1) (?final salesVelocity2)"
      by (rule Math_ceil_mono)
    with not_le show ?thesis by (simp add: calc)
  qed
qed

theorem suggested_quantity_monotone_in_velocity_witness:
  "(0::real) \<le> 10 \<and> js_le (Fin 1) (Fin 30) \<and>
   js_le (Fin 0) (to_double (1 / 10)) \<and> js_le (to_double (1 / 10)) (Fin 1) \<and>
   js_le (Fin 0) (Fin 0) \<and> js_le (Fin 0) (Fin 2) \<and>
   js_le
     (calculateSuggestedQuantity (Fin 10) (Fin 0)
        \<lparr>stockCoverageDays = Fin 30, lowStockThreshold = Fin 7, mediumStockThreshold = Fin 14,
      reorderPoint = to_double (1 / 10), emailNotifications = True\<rparr>)
     (calculateSuggestedQuantity (Fin 10) (Fin 2)
        \<lparr>stockCoverageDays = Fin 30, lowStockThreshold = Fin 7, mediumStockThreshold = Fin 14,
      reorderPoint = to_double (1 / 10), emailNotifications = True\<rparr>)"
  using suggested_quantity_monotone_in_velocity [of 10
      "\<lparr>stockCoverageDays = Fin 30, lowStockThreshold = Fin 7, mediumStockThreshold = Fin 14,
      reorderPoint = to_double (1 / 10), emailNotifications = True\<rparr>" "Fin 0" "Fin 2"]
  by (simp add: to_double_tenth)

text \<open>
  C10: for a velocity \<open>> 0\<close> and a \<open>reorderPoint\<close> between 0 and 1, when the finite stock
  is at least the target stock ceiling(salesVelocity * stockCoverageDays),
  \<open>calculateSuggestedQuantity\<close> returns exactly 0: the buffer factor does not turn a zero
  raw suggestion into a positive one. The target stock is the one that the function
  computes; for a stock that is a representable integer (every integer below \<open>2 ^ 53\<close> is),
  the exact ceiling of the exact product serves as well.
\<close>

theorem covered_stock_suggests_zero:
  assumes "js_le (Fin 0) (reorderPoint settings)" and "js_le (reorderPoint settings) (Fin 1)"
  shows
    "(js_lt (Fin 0) salesVelocity \<and>
      js_le (Math_ceil (js_mul salesVelocity (stockCoverageDays settings))) (Fin currentStock) \<longrightarrow>
        calculateSuggestedQuantity (Fin currentStock) salesVelocity settings = Fin 0) \<and>
     (0 < v \<and> stockCoverageDays settings = Fin d \<and> representable (of_int n) \<and> \<lceil>v * d\<rceil> \<le> n \<longrightarrow>
        calculateSuggestedQuantity (Fin (of_int n)) (Fin v) settings = Fin 0)"
proof -
  from assms obtain b where buffer: "js_add (Fin 1) (reorderPoint settings) = Fin b"
    by (rule buffer_factor)
  have zero: "calculateSuggestedQuantity (Fin c) w settings = Fin 0"
    if pos: "js_lt (Fin 0) w"
      and covered: "js_le (Math_ceil (js_mul w (stockCoverageDays settings))) (Fin c)"
    for c w
  proof -
    let ?target = "Math_ceil (js_mul w (stockCoverageDays settings))"
    from covered have "js_le (js_sub ?target (Fin c)) (js_sub (Fin c) (Fin c))"
      by (rule js_sub_mono_left)
    then have "Math_max (Fin 0) (js_sub ?target (Fin c)) = Fin 0"
      by (intro Math_max_zero_nonpos) simp
    moreover from pos have "\<not> js_le w (Fin 0)"
      by (simp add: js_le_def)
    ultimately show ?thesis
      by (simp add: calculateSuggestedQuantity_def Let_def buffer)
  qed
  have exact: "js_le (Math_ceil (js_mul (Fin v) (stockCoverageDays settings))) (Fin (of_int n))"
    if days: "stockCoverageDays settings = Fin d" and n: "representable (of_int n)"
      and le: "\<lceil>v * d\<rceil> \<le> n"
  proof -
    from le have "v * d \<le> of_int n" by (simp add: ceiling_le_iff)
    then have "js_le (to_double (v * d)) (to_double (of_int n))" by (rule to_double_mono)
    with n have "js_le (js_mul (Fin v) (Fin d)) (Fin (of_int n))"
      by (simp add: representable_def)
    then have "js_le (Math_ceil (js_mul (Fin v) (Fin d))) (Math_ceil (Fin (of_int n)))"
      by (rule Math_ceil_mono)
    with days show ?thesis by simp
  qed
  show ?thesis
    using zero exact by auto
qed

theorem covered_stock_suggests_zero_witness:
  "js_le (Fin 0) (to_double (1 / 10)) \<and> js_le (to_double (1 / 10)) (Fin 1) \<and>
   js_lt (Fin 0) (Fin 2) \<and>
   js_le (Math_ceil (js_mul (Fin 2) (Fin 30))) (Fin 60) \<and>
   (0::real) < 2 \<and> representable (of_int 60) \<and> \<lceil>2 * 30 :: real\<rceil> \<le> 60 \<and>
   calculateSuggestedQuantity (Fin 60) (Fin 2)
     \<lparr>stockCoverageDays = Fin 30, lowStockThreshold = Fin 7, mediumStockThreshold = Fin 14,
      reorderPoint = to_double (1 / 10), emailNotifications = True\<rparr> = Fin 0"
  using covered_stock_suggests_zero [of
      "\<lparr>stockCoverageDays = Fin 30, lowStockThreshold = Fin 7, mediumStockThreshold = Fin 14,
      reorderPoint = to_double (1 / 10), emailNotifications = True\<rparr>" "Fin 2" 60 2 30 60]
  by (simp add: representable_def to_double_tenth to_double_60)

section \<open>The settings lookup\<close>

lemma findUnique_None_iff: "findUnique table sh = None \<longleftrightarrow> (\<forall>row \<in> set table. shop row \<noteq> sh)"
  by (auto simp: findUnique_def find_None_iff)

lemma findUnique_the_row:
  assumes "distinct (map shop table)" and "row \<in> set table" and "shop row = sh"
  shows "findUnique table sh = Some row"
proof -
  from assms(2,3) have "findUnique table sh \<noteq> None"
    by (auto simp: findUnique_None_iff)
  then obtain found where found: "findUnique table sh = Some found" by blast
  then have "found \<in> set table" and "shop found = sh"
    by (auto simp: findUnique_def find_Some_iff)
  with assms have "found = row"
    by (auto simp: distinct_map dest: inj_onD)
  with found show ?thesis by simp
qed

text \<open>
  C8: for a shop with no row in the table, \<open>getAppSettings\<close> creates and returns a row with
  exactly the defaults \<open>stockCoverageDays = 30\<close>, \<open>lowStockThreshold = 7\<close>,
  \<open>mediumStockThreshold = 14\<close>, \<open>reorderPoint = 0.1\<close> and \<open>emailNotifications = true\<close>, and
  the table gains that row; for a shop with a row in the table, that row is returned and the
  table is unchanged. The generated key is assumed not to be in the table, and the shops of
  the rows are distinct, as the unique index on \<open>shop\<close> keeps them.
\<close>

theorem getAppSettings_defaults:
  "((\<forall>row \<in> set table. shop row \<noteq> sh) \<and> new_id \<notin> id ` set table \<longrightarrow>
      getAppSettings sh new_id now table =
        Inr (\<lparr>stockCoverageDays = Fin 30, lowStockThreshold = Fin 7,
               mediumStockThreshold = Fin 14, reorderPoint = to_double (1 / 10),
               emailNotifications = True,
               id = new_id, shop = sh, createdAt = now, updatedAt = now\<rparr>,
             table @
             [\<lparr>stockCoverageDays = Fin 30, lowStockThreshold = Fin 7,
               mediumStockThreshold = Fin 14, reorderPoint = to_double (1 / 10),
               emailNotifications = True,
               id = new_id, shop = sh, createdAt = now, updatedAt = now\<rparr>])) \<and>
   (distinct (map shop table) \<and> existing \<in> set table \<and> shop existing = sh \<longrightarrow>
      getAppSettings sh new_id now table = Inr (existing, table))"
proof (intro conjI impI)
  assume "(\<forall>row \<in> set table. shop row \<noteq> sh) \<and> new_id \<notin> id ` set table"
  then have none: "findUnique table sh = None"
    and fresh: "\<not> (\<exists>row \<in> set table. shop row = sh \<or> id row = new_id)"
    by (auto simp: findUnique_None_iff)
  show "getAppSettings sh new_id now table =
        Inr (\<lparr>stockCoverageDays = Fin 30, lowStockThreshold = Fin 7,
               mediumStockThreshold = Fin 14, reorderPoint = to_double (1 / 10),
               emailNotifications = True,
               id = new_id, shop = sh, createdAt = now, updatedAt = now\<rparr>,
             table @
             [\<lparr>stockCoverageDays = Fin 30, lowStockThreshold = Fin 7,
               mediumStockThreshold = Fin 14, reorderPoint = to_double (1 / 10),
               emailNotifications = True,
               id = new_id, shop = sh, createdAt = now, updatedAt = now\<rparr>])"
    unfolding getAppSettings_def create_def none using fresh by (simp add: Let_def)
next
  assume "distinct (map shop table) \<and> existing \<in> set table \<and> shop existing = sh"
  then have "findUnique table sh = Some existing"
    by (intro findUnique_the_row) simp_all
  then show "getAppSettings sh new_id now table = Inr (existing, table)"
    by (simp add: getAppSettings_def)
qed

theorem getAppSettings_defaults_witness:
  "shop
      \<lparr>stockCoverageDays = Fin 45, lowStockThreshold = Fin 5,
       mediumStockThreshold = Fin 10, reorderPoint = Fin (1 / 4),
       emailNotifications = False,
       id = ''c0'', shop = ''b.myshopify.com'', createdAt = 1, updatedAt = 2\<rparr>
      \<noteq> ''a.myshopify.com'' \<and>
   ''c2'' \<notin> id ` set [
      \<lparr>stockCoverageDays = Fin 45, lowStockThreshold = Fin 5,
       mediumStockThreshold = Fin 10, reorderPoint = Fin (1 / 4),
       emailNotifications = False,
       id = ''c0'', shop = ''b.myshopify.com'', createdAt = 1, updatedAt = 2\<rparr>] \<and>
   getAppSettings ''a.myshopify.com'' ''c2'' 5 [
      \<lparr>stockCoverageDays = Fin 45, lowStockThreshold = Fin 5,
       mediumStockThreshold = Fin 10, reorderPoint = Fin (1 / 4),
       emailNotifications = False,
       id = ''c0'', shop = ''b.myshopify.com'', createdAt = 1, updatedAt = 2\<rparr>] =
     Inr (
      \<lparr>stockCoverageDays = Fin 30, lowStockThreshold = Fin 7,
       mediumStockThreshold = Fin 14, reorderPoint = to_double (1 / 10),
       emailNotifications = True,
       id = ''c2'', shop = ''a.myshopify.com'', createdAt = 5, updatedAt = 5\<rparr>,
      [
      \<lparr>stockCoverageDays = Fin 45, lowStockThreshold = Fin 5,
       mediumStockThreshold = Fin 10, reorderPoint = Fin (1 / 4),
       emailNotifications = False,
       id = ''c0'', shop = ''b.myshopify.com'', createdAt = 1, updatedAt = 2\<rparr>,
      \<lparr>stockCoverageDays = Fin 30, lowStockThreshold = Fin 7,
       mediumStockThreshold = Fin 14, reorderPoint = to_double (1 / 10),
       emailNotifications = True,
       id = ''c2'', shop = ''a.myshopify.com'', createdAt = 5, updatedAt = 5\<rparr>]) \<and>
   distinct (map shop [
      \<lparr>stockCoverageDays = Fin 45, lowStockThreshold = Fin 5,
       mediumStockThreshold = Fin 10, reorderPoint = Fin (1 / 4),
       emailNotifications = False,
       id = ''c0'', shop = ''b.myshopify.com'', createdAt = 1, updatedAt = 2\<rparr>,
      \<lparr>stockCoverageDays = Fin 60, lowStockThreshold = Fin 3,
       mediumStockThreshold = Fin 9, reorderPoint = Fin (1 / 2),
       emailNotifications = True,
       id = ''c1'', shop = ''a.myshopify.com'', createdAt = 3, updatedAt = 4\<rparr>]) \<and>
   getAppSettings ''a.myshopify.com'' ''c2'' 5 [
      \<lparr>stockCoverageDays = Fin 45, lowStockThreshold = Fin 5,
       mediumStockThreshold = Fin 10, reorderPoint = Fin (1 / 4),
       emailNotifications = False,
       id = ''c0'', shop = ''b.myshopify.com'', createdAt = 1, updatedAt = 2\<rparr>,
      \<lparr>stockCoverageDays = Fin 60, lowStockThreshold = Fin 3,
       mediumStockThreshold = Fin 9, reorderPoint = Fin (1 / 2),
       emailNotifications = True,
       id = ''c1'', shop = ''a.myshopify.com'', createdAt = 3, updatedAt = 4\<rparr>] =
     Inr (
      \<lparr>stockCoverageDays = Fin 60, lowStockThreshold = Fin 3,
       mediumStockThreshold = Fin 9, reorderPoint = Fin (1 / 2),
       emailNotifications = True,
       id = ''c1'', shop = ''a.myshopify.com'', createdAt = 3, updatedAt = 4\<rparr>,
      [
      \<lparr>stockCoverageDays = Fin 45, lowStockThreshold = Fin 5,
       mediumStockThreshold = Fin 10, reorderPoint = Fin (1 / 4),
       emailNotifications = False,
       id = ''c0'', shop = ''b.myshopify.com'', createdAt = 1, updatedAt = 2\<rparr>,
      \<lparr>stockCoverageDays = Fin 60, lowStockThreshold = Fin 3,
       mediumStockThreshold = Fin 9, reorderPoint = Fin (1 / 2),
       emailNotifications = True,
       id = ''c1'', shop = ''a.myshopify.com'', createdAt = 3, updatedAt = 4\<rparr>])"
  using
    getAppSettings_defaults [of "[
      \<lparr>stockCoverageDays = Fin 45, lowStockThreshold = Fin 5,
       mediumStockThreshold = Fin 10, reorderPoint = Fin (1 / 4),
       emailNotifications = False,
       id = ''c0'', shop = ''b.myshopify.com'', createdAt = 1, updatedAt = 2\<rparr>]" "''a.myshopify.com''" "''c2''" 5]
    getAppSettings_defaults [of "[
      \<lparr>stockCoverageDays = Fin 45, lowStockThreshold = Fin 5,
       mediumStockThreshold = Fin 10, reorderPoint = Fin (1 / 4),
       emailNotifications = False,
       id = ''c0'', shop = ''b.myshopify.com'', createdAt = 1, updatedAt = 2\<rparr>,
      \<lparr>stockCoverageDays = Fin 60, lowStockThreshold = Fin 3,
       mediumStockThreshold = Fin 9, reorderPoint = Fin (1 / 2),
       emailNotifications = True,
       id = ''c1'', shop = ''a.myshopify.com'', createdAt = 3, updatedAt = 4\<rparr>]"
      "''a.myshopify.com''" "''c2''" 5
      "\<lparr>stockCoverageDays = Fin 60, lowStockThreshold = Fin 3,
       mediumStockThreshold = Fin 9, reorderPoint = Fin (1 / 2),
       emailNotifications = True,
       id = ''c1'', shop = ''a.myshopify.com'', createdAt = 3, updatedAt = 4\<rparr>"]
  by simp

end
